theory Spec2Isabelle
  imports Main
begin

section \<open>cdk-serverless-lamp: the resource descriptions built by src/index.ts\<close>

text \<open>
  The library consists of three constructors (\<open>ServerlessApi\<close>, \<open>ServerlessLaravel\<close>,
  \<open>DatabaseCluster\<close>) that run once and build a description of cloud resources. The
  embedding keeps the objects of the source as records, under the names of the source
  (fields that occur in several interfaces are told apart by the record name, as in
  \<open>DatabaseProps.vpc\<close>). An optional field \<open>f?: T\<close> is a \<open>T option\<close>, \<open>None\<close> being
  \<open>undefined\<close>. Every \<open>new X(scope, id, ...)\<close> adds one entry to the list of constructs of
  the object under construction, in the order of creation; a construct that the
  constructor changes later (a role that receives a policy statement, a proxy that
  receives a dependency) is listed in its final state. Values that only exist at
  deployment (an ARN, a secret value, the URL of the API) are kept symbolic.
\<close>

subsection \<open>JavaScript operators used by the constructors\<close>

text \<open>\<open>a ?? b\<close>: the left operand unless it is \<open>undefined\<close>.\<close>

definition nullish :: "'a option \<Rightarrow> 'a \<Rightarrow> 'a" where
  "nullish a b = (case a of Some v \<Rightarrow> v | None \<Rightarrow> b)"

text \<open>Truthiness of an optional boolean: \<open>undefined\<close> and \<open>false\<close> are falsy.\<close>

fun truthy :: "bool option \<Rightarrow> bool" where
  "truthy None = False"
| "truthy (Some b) = b"

text \<open>\<open>!x\<close> on an optional boolean.\<close>

definition js_not :: "bool option \<Rightarrow> bool" where
  "js_not x = (\<not> truthy x)"

subsection \<open>The construct tree\<close>

type_synonym path = string

text \<open>What a constructor reads of its \<open>scope\<close>: the name of the enclosing stack
  (\<open>cdk.Stack.of(this).stackName\<close>) and the position in the tree.\<close>

record Construct_scope =
  stackName :: string
  nodePath :: path

definition child_path :: "Construct_scope \<Rightarrow> string \<Rightarrow> path" where
  "child_path scope i = nodePath scope @ ''/'' @ i"

text \<open>\<open>super(scope, id)\<close>: the new node \<open>this\<close>, a child of \<open>scope\<close> in the same stack.\<close>

definition super :: "Construct_scope \<Rightarrow> string \<Rightarrow> Construct_scope" where
  "super scope i = scope\<lparr>nodePath := child_path scope i\<rparr>"

text \<open>Strings of the description: literals, and values resolved at deployment.\<close>

datatype Token =
    Lit string
  | secretArn path
  | secretValueFromJson path string
  | HttpApi_url path

subsection \<open>ec2, iam, secretsmanager\<close>

datatype IVpc = IVpc path

datatype InstanceType = InstanceType string

datatype Port = Port_tcp nat

record ec2_Vpc =
  path :: path
  maxAzs :: nat
  natGateways :: nat

record ec2_SecurityGroup =
  path :: path
  vpc :: IVpc
  allowInternally :: "Port list"

datatype Principal = ServicePrincipal string

record iam_PolicyStatement =
  actions :: "string list"
  resources :: "Token list"

record iam_Role =
  path :: path
  assumedBy :: Principal
  policy :: "iam_PolicyStatement list"

text \<open>\<open>role.addToPolicy(statement)\<close>\<close>

definition addToPolicy :: "iam_Role \<Rightarrow> iam_PolicyStatement \<Rightarrow> iam_Role" where
  "addToPolicy r s = r\<lparr>iam_Role.policy := iam_Role.policy r @ [s]\<rparr>"

datatype ISecret = ISecret path

datatype json = JObject "(string \<times> string) list"

text \<open>A \<open>secretsmanager.Secret\<close> with its \<open>generateSecretString\<close> request;
  \<open>secretStringTemplate\<close> holds the object that the source hands to \<open>JSON.stringify\<close>.\<close>

record secretsmanager_Secret =
  path :: path
  secretName :: string
  secretStringTemplate :: json
  passwordLength :: nat
  excludePunctuation :: bool
  includeSpace :: bool
  generateStringKey :: string

subsection \<open>lambda, apigatewayv2\<close>

datatype Runtime = PROVIDED

datatype Duration = Duration_seconds nat

text \<open>A file name: a literal, or \<open>path.join(a, b)\<close> left unevaluated.\<close>

datatype FilePath = Path string | path_join string string

datatype Code = Code_fromAsset FilePath

record lambda_LayerVersion =
  path :: path
  layerVersionArn :: string

text \<open>A function object (\<open>lambda.IFunction\<close>). \<open>rolePolicy\<close> collects the statements
  handed to \<open>addToRolePolicy\<close>.\<close>

record lambda_Function =
  path :: path
  runtime :: Runtime
  handler :: string
  layers :: "lambda_LayerVersion list"
  code :: Code
  environment :: "(string \<times> string) list"
  timeout :: Duration
  vpc :: IVpc
  rolePolicy :: "iam_PolicyStatement list"

definition addToRolePolicy :: "lambda_Function \<Rightarrow> iam_PolicyStatement \<Rightarrow> lambda_Function" where
  "addToRolePolicy f s = f\<lparr>rolePolicy := rolePolicy f @ [s]\<rparr>"

datatype LambdaProxyIntegration = LambdaProxyIntegration lambda_Function

record apigateway_HttpApi =
  path :: path
  defaultIntegration :: LambdaProxyIntegration

record cdk_CfnOutput =
  path :: path
  "value" :: Token

subsection \<open>rds\<close>

datatype DatabaseInstanceEngine = MYSQL

datatype AuroraMysqlEngineVersion = VER_2_08_1

datatype IClusterEngine = AURORA | AURORA_MYSQL | AURORA_POSTGRESQL | auroraMysql AuroraMysqlEngineVersion

datatype RemovalPolicy = DESTROY | RETAIN | SNAPSHOT

text \<open>The CloudFormation resources below a cluster (\<open>cluster.node.children\<close>);
  \<open>CfnDBInstance p k\<close> is the \<open>k\<close>-th member instance of the cluster at \<open>p\<close>.\<close>

datatype CfnResource = CfnDBSubnetGroup path | CfnDBCluster path | CfnDBInstance path nat

fun instanceof_CfnDBInstance :: "CfnResource \<Rightarrow> bool" where
  "instanceof_CfnDBInstance (CfnDBInstance p k) = True"
| "instanceof_CfnDBInstance (CfnDBSubnetGroup p) = False"
| "instanceof_CfnDBInstance (CfnDBCluster p) = False"

record rds_DatabaseInstance =
  path :: path
  engine :: DatabaseInstanceEngine
  masterUsername :: Token
  masterUserPassword :: Token
  vpc :: IVpc
  securityGroups :: "path list"
  instanceType :: "InstanceType option"
  deletionProtection :: bool

record rds_InstanceProps =
  vpc :: IVpc
  instanceType :: InstanceType
  securityGroups :: "path list"

record rds_Login =
  username :: Token
  password :: Token

record rds_DatabaseCluster =
  path :: path
  engine :: IClusterEngine
  instanceProps :: rds_InstanceProps
  masterUser :: rds_Login
  instances :: nat
  removalPolicy :: RemovalPolicy

text \<open>Children that \<open>rds.DatabaseCluster\<close> of the AWS CDK (a dependency of the
  library, not part of it) creates for itself: a subnet group, the cluster resource and
  one \<open>CfnDBInstance\<close> per requested instance, numbered from 1. Whatever else the
  cluster creates below itself is no \<open>CfnDBInstance\<close> and is left out: the constructor
  only searches the children for the first \<open>CfnDBInstance\<close>.\<close>

definition node_children :: "rds_DatabaseCluster \<Rightarrow> CfnResource list" where
  "node_children c =
     [CfnDBSubnetGroup (rds_DatabaseCluster.path c), CfnDBCluster (rds_DatabaseCluster.path c)]
     @ map (\<lambda>k. CfnDBInstance (rds_DatabaseCluster.path c) (Suc k)) [0 ..< instances c]"

datatype ProxyTarget = ProxyTarget_fromCluster path | ProxyTarget_fromInstance path

record rds_DatabaseProxyOptions =
  vpc :: IVpc
  secrets :: "ISecret list"
  iamAuth :: "bool option"
  dbProxyName :: "string option"
  securityGroups :: "path list"
  role :: "path option"

text \<open>A proxy: where it sits, what it fronts, its options, and the constructs it was told
  to wait for (\<open>proxy.node.addDependency\<close>). An entry \<open>None\<close> stands for \<open>undefined\<close>,
  which \<open>Array.find\<close> returns when nothing matches.\<close>

record rds_DatabaseProxy =
  path :: path
  proxyTarget :: ProxyTarget
  options :: rds_DatabaseProxyOptions
  dependencies :: "CfnResource option list"

text \<open>\<open>secret.grantRead(role)\<close> of the AWS CDK: one more statement on the role, which
  lets it read and describe that secret.\<close>

definition grantRead :: "ISecret \<Rightarrow> iam_Role \<Rightarrow> iam_Role" where
  "grantRead s r =
     addToPolicy r
       \<lparr> actions = [''secretsmanager:GetSecretValue'', ''secretsmanager:DescribeSecret''],
         resources = [secretArn (case s of ISecret p \<Rightarrow> p)] \<rparr>"

text \<open>\<open>cluster.addProxy(id, options)\<close> and \<open>instance.addProxy(id, options)\<close> of the
  AWS CDK: a proxy below the cluster (the instance) with that cluster (instance) as its
  target and the options as given. The constructor of the proxy also grants every secret
  of the options to the role of the options: the last argument is that role as it stands
  before the call, and the result is the proxy together with the role as the call leaves
  it.\<close>

definition DatabaseCluster_addProxy ::
    "rds_DatabaseCluster \<Rightarrow> string \<Rightarrow> rds_DatabaseProxyOptions \<Rightarrow> iam_Role
       \<Rightarrow> rds_DatabaseProxy \<times> iam_Role" where
  "DatabaseCluster_addProxy c i opts r =
     (\<lparr> rds_DatabaseProxy.path = rds_DatabaseCluster.path c @ ''/'' @ i,
        proxyTarget = ProxyTarget_fromCluster (rds_DatabaseCluster.path c),
        options = opts,
        dependencies = [] \<rparr>,
      fold grantRead (secrets opts) r)"

definition DatabaseInstance_addProxy ::
    "rds_DatabaseInstance \<Rightarrow> string \<Rightarrow> rds_DatabaseProxyOptions \<Rightarrow> iam_Role
       \<Rightarrow> rds_DatabaseProxy \<times> iam_Role" where
  "DatabaseInstance_addProxy d i opts r =
     (\<lparr> rds_DatabaseProxy.path = rds_DatabaseInstance.path d @ ''/'' @ i,
        proxyTarget = ProxyTarget_fromInstance (rds_DatabaseInstance.path d),
        options = opts,
        dependencies = [] \<rparr>,
      fold grantRead (secrets opts) r)"

definition addDependency :: "rds_DatabaseProxy \<Rightarrow> CfnResource option list \<Rightarrow> rds_DatabaseProxy" where
  "addDependency p deps = p\<lparr>dependencies := dependencies p @ deps\<rparr>"

text \<open>A proxy handed to \<open>ServerlessApi\<close> by the caller.\<close>

record IDatabaseProxy =
  dbProxyName :: string
  dbProxyArn :: string
  endpoint :: string

subsection \<open>The produced description\<close>

datatype Construct =
    C_Vpc ec2_Vpc
  | C_LayerVersion lambda_LayerVersion
  | C_Function lambda_Function
  | C_HttpApi apigateway_HttpApi
  | C_CfnOutput cdk_CfnOutput
  | C_Secret secretsmanager_Secret
  | C_SecurityGroup ec2_SecurityGroup
  | C_DatabaseInstance rds_DatabaseInstance
  | C_DatabaseCluster rds_DatabaseCluster
  | C_Role iam_Role
  | C_DatabaseProxy rds_DatabaseProxy

definition the_proxies :: "Construct list \<Rightarrow> rds_DatabaseProxy list" where
  "the_proxies cs = List.map_filter (\<lambda>c. case c of C_DatabaseProxy p \<Rightarrow> Some p | _ \<Rightarrow> None) cs"

definition the_instances :: "Construct list \<Rightarrow> rds_DatabaseInstance list" where
  "the_instances cs = List.map_filter (\<lambda>c. case c of C_DatabaseInstance d \<Rightarrow> Some d | _ \<Rightarrow> None) cs"

definition the_clusters :: "Construct list \<Rightarrow> rds_DatabaseCluster list" where
  "the_clusters cs = List.map_filter (\<lambda>c. case c of C_DatabaseCluster d \<Rightarrow> Some d | _ \<Rightarrow> None) cs"

definition the_roles :: "Construct list \<Rightarrow> iam_Role list" where
  "the_roles cs = List.map_filter (\<lambda>c. case c of C_Role r \<Rightarrow> Some r | _ \<Rightarrow> None) cs"

definition the_secrets :: "Construct list \<Rightarrow> secretsmanager_Secret list" where
  "the_secrets cs = List.map_filter (\<lambda>c. case c of C_Secret s \<Rightarrow> Some s | _ \<Rightarrow> None) cs"

definition the_functions :: "Construct list \<Rightarrow> lambda_Function list" where
  "the_functions cs = List.map_filter (\<lambda>c. case c of C_Function f \<Rightarrow> Some f | _ \<Rightarrow> None) cs"

definition the_layers :: "Construct list \<Rightarrow> lambda_LayerVersion list" where
  "the_layers cs = List.map_filter (\<lambda>c. case c of C_LayerVersion l \<Rightarrow> Some l | _ \<Rightarrow> None) cs"

subsection \<open>ServerlessApi and ServerlessLaravel\<close>

record DatabaseConfig =
  writerEndpoint :: string
  readerEndpoint :: "string option"
  masterUserName :: "string option"
  masterUserPasswordSecret :: "ISecret option"

record ServerlessApiProps =
  handler :: "lambda_Function option"
  lambdaCodePath :: "string option"
  brefLayerVersion :: string
  vpc :: "IVpc option"
  databaseConfig :: "DatabaseConfig option"
  rdsProxy :: "IDatabaseProxy option"

record ServerlessApi =
  handler :: lambda_Function
  vpc :: IVpc
  constructs :: "Construct list"

text \<open>\<open>props.databaseConfig?.f\<close> for a required field \<open>f\<close>, and for an optional one.\<close>

definition opt_chain :: "'a option \<Rightarrow> ('a \<Rightarrow> 'b) \<Rightarrow> 'b option" where
  "opt_chain x f = (case x of None \<Rightarrow> None | Some v \<Rightarrow> Some (f v))"

definition opt_chain_opt :: "'a option \<Rightarrow> ('a \<Rightarrow> 'b option) \<Rightarrow> 'b option" where
  "opt_chain_opt x f = (case x of None \<Rightarrow> None | Some v \<Rightarrow> f v)"

text \<open>The constructor of \<open>ServerlessApi\<close> (index.ts, lines 85 to 124). \<open>dirname\<close> is the
  \<open>__dirname\<close> of the module. \<open>newVpc\<close>, \<open>newLayer\<close> and \<open>newFunction\<close> are the right
  operands of \<open>??\<close>: they enter the description only when the left operand is
  \<open>undefined\<close>. The function is listed with the statement it may have received.\<close>

definition ServerlessApi_ctor ::
    "string \<Rightarrow> Construct_scope \<Rightarrow> string \<Rightarrow> ServerlessApiProps \<Rightarrow> ServerlessApi" where
  "ServerlessApi_ctor dirname scope i props =
    (let this = super scope i;
         DEFAULT_LAMBDA_ASSET_PATH = path_join dirname ''../composer/laravel58-bref'';
         DEFAULT_DB_MASTER_USER = ''admin'';
         newVpc = \<lparr> ec2_Vpc.path = child_path this ''Vpc'', maxAzs = 3, natGateways = 1 \<rparr>;
         this_vpc = (case ServerlessApiProps.vpc props of
                       Some v \<Rightarrow> v
                     | None \<Rightarrow> IVpc (ec2_Vpc.path newVpc));
         newLayer = \<lparr> lambda_LayerVersion.path = child_path this ''BrefPHPLayer'',
                      layerVersionArn = brefLayerVersion props \<rparr>;
         newFunction =
           \<lparr> lambda_Function.path = child_path this ''handler'',
             runtime = PROVIDED,
             handler = ''public/index.php'',
             layers = [newLayer],
             code = Code_fromAsset
                      (case lambdaCodePath props of Some p \<Rightarrow> Path p
                                                  | None \<Rightarrow> DEFAULT_LAMBDA_ASSET_PATH),
             environment =
               [(''APP_STORAGE'', ''/tmp''),
                (''DB_WRITER'',
                   nullish (opt_chain (databaseConfig props) writerEndpoint) []),
                (''DB_READER'',
                   nullish (opt_chain_opt (databaseConfig props) readerEndpoint)
                     (nullish (opt_chain (databaseConfig props) writerEndpoint) [])),
                (''DB_USER'',
                   nullish (opt_chain_opt (databaseConfig props) masterUserName)
                     DEFAULT_DB_MASTER_USER)],
             timeout = Duration_seconds 120,
             vpc = this_vpc,
             rolePolicy = [] \<rparr>;
         this_handler0 = (case ServerlessApiProps.handler props of
                            Some h \<Rightarrow> h
                          | None \<Rightarrow> newFunction);
         this_handler = (case ServerlessApiProps.rdsProxy props of
                           Some p \<Rightarrow> addToRolePolicy this_handler0
                                       \<lparr> actions = [''rds-db:connect''],
                                         resources = [Lit (dbProxyArn p)] \<rparr>
                         | None \<Rightarrow> this_handler0);
         endpoint = \<lparr> apigateway_HttpApi.path = child_path this ''apiservice'',
                      defaultIntegration = LambdaProxyIntegration this_handler \<rparr>;
         output = \<lparr> cdk_CfnOutput.path = child_path this ''EndpointURL'',
                    value = HttpApi_url (apigateway_HttpApi.path endpoint) \<rparr>
     in \<lparr> ServerlessApi.handler = this_handler,
          ServerlessApi.vpc = this_vpc,
          constructs =
            (case ServerlessApiProps.vpc props of Some v \<Rightarrow> [] | None \<Rightarrow> [C_Vpc newVpc])
            @ (case ServerlessApiProps.handler props of
                 Some h \<Rightarrow> []
               | None \<Rightarrow> [C_LayerVersion newLayer, C_Function this_handler])
            @ [C_HttpApi endpoint, C_CfnOutput output] \<rparr>)"

record ServerlessLaravelProps = ServerlessApiProps +
  laravelPath :: string

text \<open>The constructor of \<open>ServerlessLaravel\<close> (index.ts, lines 142 to 151): a call of the
  constructor of \<open>ServerlessApi\<close> on a fresh properties object.\<close>

definition ServerlessLaravel_ctor ::
    "string \<Rightarrow> Construct_scope \<Rightarrow> string \<Rightarrow> ServerlessLaravelProps \<Rightarrow> ServerlessApi" where
  "ServerlessLaravel_ctor dirname scope i props =
     ServerlessApi_ctor dirname scope i
       \<lparr> ServerlessApiProps.handler = ServerlessApiProps.handler props,
         lambdaCodePath = Some (laravelPath props),
         brefLayerVersion = brefLayerVersion props,
         ServerlessApiProps.vpc = ServerlessApiProps.vpc props,
         databaseConfig = databaseConfig props,
         ServerlessApiProps.rdsProxy = ServerlessApiProps.rdsProxy props \<rparr>"

text \<open>The specification's reading of \<open>ServerlessLaravel\<close>: the properties as they are,
  without the added field, and with \<open>lambdaCodePath\<close> renamed from \<open>laravelPath\<close>.\<close>

definition ServerlessLaravel_as_renaming ::
    "string \<Rightarrow> Construct_scope \<Rightarrow> string \<Rightarrow> ServerlessLaravelProps \<Rightarrow> ServerlessApi" where
  "ServerlessLaravel_as_renaming dirname scope i props =
     ServerlessApi_ctor dirname scope i
       ((ServerlessApiProps.truncate props)\<lparr>lambdaCodePath := Some (laravelPath props)\<rparr>)"

subsection \<open>DatabaseCluster\<close>

record DatabaseProps =
  engine :: "IClusterEngine option"
  masterUserName :: "string option"
  vpc :: IVpc
  instanceType :: "InstanceType option"
  rdsProxy :: "bool option"
  rdsProxyOptions :: "rds_DatabaseProxyOptions option"
  singleInstanceOnly :: "bool option"

text \<open>The object under construction; \<open>runBefore\<close> is the private field \<open>_runBefore\<close>.\<close>

record DatabaseCluster =
  rdsProxy :: "rds_DatabaseProxy option"
  masterUser :: string
  masterPassword :: secretsmanager_Secret
  dbCluster :: "rds_DatabaseCluster option"
  dbInstance :: "rds_DatabaseInstance option"
  runBefore :: "CfnResource option list"
  constructs :: "Construct list"

text \<open>The constructor of \<open>DatabaseCluster\<close> (index.ts, lines 210 to 308), statement by
  statement. \<open>newInstance\<close> and \<open>newCluster\<close> are the objects of the two branches on
  \<open>singleInstanceOnly\<close>; \<open>enabled\<close> is the condition \<open>!props.rdsProxy === false\<close>, in
  which \<open>!\<close> binds tighter than \<open>===\<close>. The two \<open>addProxy\<close> calls are two separate
  \<open>if\<close> statements in the source: \<open>proxyOfCluster\<close> and \<open>proxyOfInstance\<close> are what each
  of them creates, and \<open>this.rdsProxy\<close> holds the proxy assigned last, which alone
  receives the dependencies. \<open>rdsProxyRole\<close> is the role after the statement that the
  constructor adds itself; \<open>roleAfterCluster\<close> and \<open>roleAfterInstance\<close> are the same
  object after each \<open>addProxy\<close> call, and the role is listed as the last call leaves
  it.\<close>

definition DatabaseCluster_ctor ::
    "Construct_scope \<Rightarrow> string \<Rightarrow> DatabaseProps \<Rightarrow> DatabaseCluster" where
  "DatabaseCluster_ctor scope i props =
    (let this = super scope i;
         this_masterUser = nullish (DatabaseProps.masterUserName props) ''admin'';
         masterUserSecret =
           \<lparr> secretsmanager_Secret.path = child_path this ''DbMasterSecret'',
             secretName = stackName this @ ''-DbMasterSecret'',
             secretStringTemplate = JObject [(''username'', this_masterUser)],
             passwordLength = 12,
             excludePunctuation = True,
             includeSpace = False,
             generateStringKey = ''password'' \<rparr>;
         dbConnectionGroup =
           \<lparr> ec2_SecurityGroup.path = child_path this ''DB Secuirty Group'',
             vpc = DatabaseProps.vpc props,
             allowInternally = [Port_tcp 3306] \<rparr>;
         newInstance =
           \<lparr> rds_DatabaseInstance.path = child_path this ''DBInstance'',
             engine = MYSQL,
             masterUsername =
               secretValueFromJson (secretsmanager_Secret.path masterUserSecret) ''username'',
             masterUserPassword =
               secretValueFromJson (secretsmanager_Secret.path masterUserSecret) ''password'',
             vpc = DatabaseProps.vpc props,
             securityGroups = [ec2_SecurityGroup.path dbConnectionGroup],
             instanceType = DatabaseProps.instanceType props,
             deletionProtection = False \<rparr>;
         newCluster =
           \<lparr> rds_DatabaseCluster.path = child_path this ''DBCluster'',
             engine = auroraMysql VER_2_08_1,
             instanceProps =
               \<lparr> rds_InstanceProps.vpc = DatabaseProps.vpc props,
                 instanceType =
                   nullish (DatabaseProps.instanceType props) (InstanceType ''t3.medium''),
                 securityGroups = [ec2_SecurityGroup.path dbConnectionGroup] \<rparr>,
             masterUser =
               \<lparr> username =
                   secretValueFromJson (secretsmanager_Secret.path masterUserSecret) ''username'',
                 password =
                   secretValueFromJson (secretsmanager_Secret.path masterUserSecret) ''password'' \<rparr>,
             instances = 1,
             removalPolicy = DESTROY \<rparr>;
         cfnDbInstance = List.find instanceof_CfnDBInstance (node_children newCluster);
         this_dbInstance =
           (if singleInstanceOnly props = Some True then Some newInstance else None);
         this_dbCluster =
           (if singleInstanceOnly props = Some True then None else Some newCluster);
         this_runBefore =
           (if singleInstanceOnly props = Some True then [] else [] @ [cfnDbInstance]);
         enabled = (js_not (DatabaseProps.rdsProxy props) = False);
         rdsProxyRole =
           addToPolicy
             \<lparr> iam_Role.path = child_path this ''RdsProxyRole'',
               assumedBy = ServicePrincipal ''rds.amazonaws.com'',
               policy = [] \<rparr>
             \<lparr> actions =
                 [''secretsmanager:GetResourcePolicy'',
                  ''secretsmanager:GetSecretValue'',
                  ''secretsmanager:DescribeSecret'',
                  ''secretsmanager:ListSecretVersionIds''],
               resources = [secretArn (secretsmanager_Secret.path masterUserSecret)] \<rparr>;
         proxyOptions =
           \<lparr> rds_DatabaseProxyOptions.vpc = DatabaseProps.vpc props,
             secrets = [ISecret (secretsmanager_Secret.path masterUserSecret)],
             iamAuth = Some True,
             dbProxyName = Some (stackName this @ ''-RDSProxy''),
             securityGroups = [ec2_SecurityGroup.path dbConnectionGroup],
             role = Some (iam_Role.path rdsProxyRole) \<rparr>;
         addedToCluster =
           (case this_dbCluster of
              Some c \<Rightarrow> Some (DatabaseCluster_addProxy c ''RDSProxy'' proxyOptions rdsProxyRole)
            | None \<Rightarrow> None);
         proxyOfCluster = map_option fst addedToCluster;
         roleAfterCluster =
           (case addedToCluster of Some added \<Rightarrow> snd added | None \<Rightarrow> rdsProxyRole);
         addedToInstance =
           (case this_dbInstance of
              Some d \<Rightarrow>
                Some (DatabaseInstance_addProxy d ''RDSProxy'' proxyOptions roleAfterCluster)
            | None \<Rightarrow> None);
         proxyOfInstance = map_option fst addedToInstance;
         roleAfterInstance =
           (case addedToInstance of Some added \<Rightarrow> snd added | None \<Rightarrow> roleAfterCluster);
         superseded = (case proxyOfInstance of Some q \<Rightarrow> proxyOfCluster | None \<Rightarrow> None);
         assigned = (case proxyOfInstance of Some q \<Rightarrow> Some q | None \<Rightarrow> proxyOfCluster);
         this_rdsProxy =
           (if enabled
            then (case assigned of
                    Some p \<Rightarrow> Some (addDependency p this_runBefore)
                  | None \<Rightarrow> None)
            else None)
     in \<lparr> DatabaseCluster.rdsProxy = this_rdsProxy,
          masterUser = this_masterUser,
          masterPassword = masterUserSecret,
          dbCluster = this_dbCluster,
          dbInstance = this_dbInstance,
          runBefore = this_runBefore,
          constructs =
            [C_Secret masterUserSecret, C_SecurityGroup dbConnectionGroup]
            @ (if singleInstanceOnly props = Some True
               then [C_DatabaseInstance newInstance]
               else [C_DatabaseCluster newCluster])
            @ (if enabled
               then [C_Role roleAfterInstance]
                    @ (case superseded of Some p \<Rightarrow> [C_DatabaseProxy p] | None \<Rightarrow> [])
                    @ (case this_rdsProxy of Some p \<Rightarrow> [C_DatabaseProxy p] | None \<Rightarrow> [])
               else []) \<rparr>)"

text \<open>The password is not computed by the library: the credential store generates it at
  deployment from the \<open>generateSecretString\<close> request. Its contract, as the service
  documents it: a string of the requested length, free of the 32 ASCII punctuation
  characters when \<open>excludePunctuation\<close> is set, and free of spaces unless \<open>includeSpace\<close>
  is set.\<close>

definition is_punctuation :: "char \<Rightarrow> bool" where
  "is_punctuation c =
     (let n = (of_char c :: nat)
      in (33 \<le> n \<and> n \<le> 47) \<or> (58 \<le> n \<and> n \<le> 64) \<or> (91 \<le> n \<and> n \<le> 96) \<or> (123 \<le> n \<and> n \<le> 126))"

definition generated_password :: "secretsmanager_Secret \<Rightarrow> string \<Rightarrow> bool" where
  "generated_password s pw =
     (length pw = passwordLength s
      \<and> (if excludePunctuation s then list_all (\<lambda>c. \<not> is_punctuation c) pw else True)
      \<and> (if includeSpace s then True else list_all (\<lambda>c. c \<noteq> CHR '' '') pw))"

subsection \<open>Configurations of the README\<close>

definition readme_stack :: Construct_scope where
  "readme_stack = \<lparr> stackName = ''ServerlessLaraval'', nodePath = ''ServerlessLaraval'' \<rparr>"

definition readme_DatabaseProps :: DatabaseProps where
  "readme_DatabaseProps =
     \<lparr> DatabaseProps.engine = None,
       DatabaseProps.masterUserName = None,
       DatabaseProps.vpc = IVpc ''ServerlessLaraval/Vpc'',
       DatabaseProps.instanceType = Some (InstanceType ''t3.small''),
       DatabaseProps.rdsProxy = Some True,
       rdsProxyOptions = None,
       singleInstanceOnly = None \<rparr>"

definition readme_DatabaseConfig :: DatabaseConfig where
  "readme_DatabaseConfig =
     \<lparr> writerEndpoint = ''proxy.example.internal'',
       readerEndpoint = None,
       DatabaseConfig.masterUserName = None,
       masterUserPasswordSecret = None \<rparr>"

definition readme_ServerlessLaravelProps :: ServerlessLaravelProps where
  "readme_ServerlessLaravelProps =
     \<lparr> ServerlessApiProps.handler = None,
       lambdaCodePath = None,
       brefLayerVersion = ''arn:aws:lambda:ap-northeast-1:209497400698:layer:php-74-fpm:11'',
       ServerlessApiProps.vpc = Some (IVpc ''ServerlessLaraval/Vpc''),
       databaseConfig = Some readme_DatabaseConfig,
       ServerlessApiProps.rdsProxy = None,
       laravelPath = ''../../codebase'' \<rparr>"

text \<open>A function and a proxy of the caller's own, to be passed as \<open>handler\<close> and
  \<open>rdsProxy\<close>.\<close>

definition custom_handler :: lambda_Function where
  "custom_handler =
     \<lparr> lambda_Function.path = ''ServerlessLaraval/MyFn'',
       runtime = PROVIDED,
       handler = ''index.php'',
       layers = [],
       code = Code_fromAsset (Path ''./app''),
       environment = [],
       timeout = Duration_seconds 30,
       vpc = IVpc ''ServerlessLaraval/Vpc'',
       rolePolicy = [] \<rparr>"

definition custom_proxy :: IDatabaseProxy where
  "custom_proxy =
     \<lparr> IDatabaseProxy.dbProxyName = ''ServerlessLaraval-RDSProxy'',
       dbProxyArn = ''arn:aws:rds:ap-northeast-1:123456789012:db-proxy:prx-0'',
       endpoint = ''proxy.example.internal'' \<rparr>"

section \<open>Auxiliary facts\<close>

lemmas select_simps =
  the_proxies_def the_instances_def the_clusters_def the_roles_def the_secrets_def
  the_functions_def the_layers_def

lemmas proxy_simps =
  DatabaseCluster_addProxy_def DatabaseInstance_addProxy_def addDependency_def addToPolicy_def
  grantRead_def

text \<open>The condition \<open>!x === false\<close> on an optional boolean holds for \<open>true\<close> only.\<close>

lemma js_not_iff: "js_not x \<longleftrightarrow> x \<noteq> Some True"
  by (cases x) (simp_all add: js_not_def)

lemma nullish_simps [simp]: "nullish None b = b" "nullish (Some a) b = a"
  by (simp_all add: nullish_def)

lemma opt_chain_simps [simp]:
  "opt_chain None f = None" "opt_chain (Some v) f = Some (f v)"
  "opt_chain_opt None g = None" "opt_chain_opt (Some v) g = g v"
  by (simp_all add: opt_chain_def opt_chain_opt_def)

section \<open>The claims\<close>

text \<open>
  C1. The claim: a proxy is created, with IAM authentication, whenever \<open>rdsProxy\<close> is
  omitted or is anything but \<open>false\<close>, and none is created for \<open>false\<close>. The constructor
  tests \<open>!props.rdsProxy === false\<close>, which holds for \<open>true\<close> only: with \<open>rdsProxy\<close>
  omitted it creates no proxy, against the documented default \<open>true\<close>. For \<open>true\<close> it
  creates exactly one proxy with IAM authentication, and for \<open>false\<close> none.
\<close>

theorem rdsProxy_omitted_creates_no_proxy:
  "the_proxies (DatabaseCluster.constructs
       (DatabaseCluster_ctor scope i (props\<lparr>DatabaseProps.rdsProxy := None\<rparr>))) = []
   \<and> DatabaseCluster.rdsProxy
       (DatabaseCluster_ctor scope i (props\<lparr>DatabaseProps.rdsProxy := None\<rparr>)) = None
   \<and> map (\<lambda>p. iamAuth (options p))
        (the_proxies (DatabaseCluster.constructs
           (DatabaseCluster_ctor scope i (props\<lparr>DatabaseProps.rdsProxy := Some True\<rparr>))))
       = [Some True]
   \<and> the_proxies (DatabaseCluster.constructs
       (DatabaseCluster_ctor scope i (props\<lparr>DatabaseProps.rdsProxy := Some False\<rparr>))) = []"
  by (cases "singleInstanceOnly props = Some True";
      simp add: DatabaseCluster_ctor_def Let_def select_simps js_not_iff proxy_simps)

text \<open>
  C2. Every configuration yields exactly one of a standalone instance and a cluster:
  \<open>singleInstanceOnly === true\<close> gives one instance and no cluster, anything else one
  cluster and no instance; the fields \<open>dbInstance\<close> and \<open>dbCluster\<close> hold them; and
  the target of every proxy created is among the instances and clusters created, that
  is, the one that exists.
\<close>

theorem exactly_one_of_instance_and_cluster:
  "let r = DatabaseCluster_ctor scope i props;
       ds = the_instances (DatabaseCluster.constructs r);
       cs = the_clusters (DatabaseCluster.constructs r)
   in length ds + length cs = 1
      \<and> ds = (case dbInstance r of Some d \<Rightarrow> [d] | None \<Rightarrow> [])
      \<and> cs = (case dbCluster r of Some c \<Rightarrow> [c] | None \<Rightarrow> [])
      \<and> (singleInstanceOnly props = Some True \<longrightarrow> length ds = 1 \<and> length cs = 0)
      \<and> (singleInstanceOnly props \<noteq> Some True \<longrightarrow> length cs = 1 \<and> length ds = 0)
      \<and> (\<forall>p \<in> set (the_proxies (DatabaseCluster.constructs r)).
            proxyTarget p
              \<in> set (map (\<lambda>d. ProxyTarget_fromInstance (rds_DatabaseInstance.path d)) ds
                      @ map (\<lambda>c. ProxyTarget_fromCluster (rds_DatabaseCluster.path c)) cs))"
  by (cases "singleInstanceOnly props = Some True";
      cases "DatabaseProps.rdsProxy props = Some True";
      simp add: DatabaseCluster_ctor_def Let_def select_simps js_not_iff proxy_simps)

theorem exactly_one_of_instance_and_cluster_witness:
  "singleInstanceOnly readme_DatabaseProps \<noteq> Some True
   \<and> length (the_clusters (DatabaseCluster.constructs
        (DatabaseCluster_ctor readme_stack ''DatabaseCluster'' readme_DatabaseProps))) = 1
   \<and> length (the_instances (DatabaseCluster.constructs
        (DatabaseCluster_ctor readme_stack ''DatabaseCluster'' readme_DatabaseProps))) = 0
   \<and> singleInstanceOnly (readme_DatabaseProps\<lparr>singleInstanceOnly := Some True\<rparr>) = Some True
   \<and> length (the_instances (DatabaseCluster.constructs
        (DatabaseCluster_ctor readme_stack ''DatabaseCluster''
           (readme_DatabaseProps\<lparr>singleInstanceOnly := Some True\<rparr>)))) = 1
   \<and> length (the_clusters (DatabaseCluster.constructs
        (DatabaseCluster_ctor readme_stack ''DatabaseCluster''
           (readme_DatabaseProps\<lparr>singleInstanceOnly := Some True\<rparr>)))) = 0
   \<and> map proxyTarget (the_proxies (DatabaseCluster.constructs
        (DatabaseCluster_ctor readme_stack ''DatabaseCluster'' readme_DatabaseProps)))
       = [ProxyTarget_fromCluster ''ServerlessLaraval/DatabaseCluster/DBCluster'']"
proof -
  have a: "singleInstanceOnly readme_DatabaseProps \<noteq> Some True"
    by (simp add: readme_DatabaseProps_def)
  have A: "length (the_clusters (DatabaseCluster.constructs
        (DatabaseCluster_ctor readme_stack ''DatabaseCluster'' readme_DatabaseProps))) = 1
   \<and> length (the_instances (DatabaseCluster.constructs
        (DatabaseCluster_ctor readme_stack ''DatabaseCluster'' readme_DatabaseProps))) = 0"
    using a exactly_one_of_instance_and_cluster
              [of readme_stack "''DatabaseCluster''" readme_DatabaseProps]
    unfolding Let_def by blast
  have b: "singleInstanceOnly (readme_DatabaseProps\<lparr>singleInstanceOnly := Some True\<rparr>) = Some True"
    by simp
  have B: "length (the_instances (DatabaseCluster.constructs
        (DatabaseCluster_ctor readme_stack ''DatabaseCluster''
           (readme_DatabaseProps\<lparr>singleInstanceOnly := Some True\<rparr>)))) = 1
   \<and> length (the_clusters (DatabaseCluster.constructs
        (DatabaseCluster_ctor readme_stack ''DatabaseCluster''
           (readme_DatabaseProps\<lparr>singleInstanceOnly := Some True\<rparr>)))) = 0"
    using b exactly_one_of_instance_and_cluster
              [of readme_stack "''DatabaseCluster''"
                  "readme_DatabaseProps\<lparr>singleInstanceOnly := Some True\<rparr>"]
    unfolding Let_def by blast
  have C: "map proxyTarget (the_proxies (DatabaseCluster.constructs
        (DatabaseCluster_ctor readme_stack ''DatabaseCluster'' readme_DatabaseProps)))
       = [ProxyTarget_fromCluster ''ServerlessLaraval/DatabaseCluster/DBCluster'']"
    by (simp add: readme_DatabaseProps_def readme_stack_def DatabaseCluster_ctor_def Let_def
          select_simps js_not_iff proxy_simps child_path_def super_def)
  from a A b B C show ?thesis by blast
qed

text \<open>
  C3. The claim: every proxy created declares a creation-order dependency on the
  database object recorded during construction, in the single-instance topology as in
  the cluster topology. The constructor records a predecessor in the cluster branch
  only: there the one proxy created waits for the member instance of the cluster. In the
  single-instance branch nothing is recorded, so with \<open>singleInstanceOnly: true\<close> and
  \<open>rdsProxy: true\<close> the one proxy created has an empty list of dependencies, against
  the comment on that statement (ensure the instance is ready before the proxy is
  created).
\<close>

theorem single_instance_proxy_declares_no_dependency:
  "map dependencies (the_proxies (DatabaseCluster.constructs
      (DatabaseCluster_ctor scope i
         (props\<lparr>DatabaseProps.rdsProxy := Some True, singleInstanceOnly := Some True\<rparr>))))
     = [[]]
   \<and> runBefore
       (DatabaseCluster_ctor scope i
          (props\<lparr>DatabaseProps.rdsProxy := Some True, singleInstanceOnly := Some True\<rparr>))
     = []
   \<and> map dependencies (the_proxies (DatabaseCluster.constructs
       (DatabaseCluster_ctor scope i
          (props\<lparr>DatabaseProps.rdsProxy := Some True, singleInstanceOnly := None\<rparr>))))
     = [[Some (CfnDBInstance (child_path (super scope i) ''DBCluster'') 1)]]
   \<and> map dependencies (the_proxies (DatabaseCluster.constructs
       (DatabaseCluster_ctor readme_stack ''DatabaseCluster''
          (readme_DatabaseProps\<lparr>singleInstanceOnly := Some True\<rparr>))))
     = [[]]"
  by (simp add: readme_DatabaseProps_def DatabaseCluster_ctor_def Let_def
        select_simps js_not_iff proxy_simps node_children_def)

text \<open>
  C4. For every configuration the secret of the master user asks for a generated
  password of length 12 without punctuation and without spaces, and it is the only
  secret created; so a password that the credential store generates for that request
  is at most 12 characters long and contains neither a punctuation character nor a
  space.
\<close>

theorem master_password_shape:
  assumes "generated_password (masterPassword (DatabaseCluster_ctor scope i props)) pw"
  shows "length pw \<le> 12
         \<and> (\<forall>c \<in> set pw. \<not> is_punctuation c \<and> c \<noteq> CHR '' '')
         \<and> the_secrets (DatabaseCluster.constructs (DatabaseCluster_ctor scope i props))
             = [masterPassword (DatabaseCluster_ctor scope i props)]
         \<and> passwordLength (masterPassword (DatabaseCluster_ctor scope i props)) = 12
         \<and> excludePunctuation (masterPassword (DatabaseCluster_ctor scope i props))
         \<and> \<not> includeSpace (masterPassword (DatabaseCluster_ctor scope i props))
         \<and> generateStringKey (masterPassword (DatabaseCluster_ctor scope i props)) = ''password''"
proof -
  have req: "passwordLength (masterPassword (DatabaseCluster_ctor scope i props)) = 12"
    "excludePunctuation (masterPassword (DatabaseCluster_ctor scope i props))"
    "\<not> includeSpace (masterPassword (DatabaseCluster_ctor scope i props))"
    "generateStringKey (masterPassword (DatabaseCluster_ctor scope i props)) = ''password''"
    by (simp_all add: DatabaseCluster_ctor_def Let_def)
  have only: "the_secrets (DatabaseCluster.constructs (DatabaseCluster_ctor scope i props))
             = [masterPassword (DatabaseCluster_ctor scope i props)]"
    by (cases "singleInstanceOnly props = Some True";
        cases "DatabaseProps.rdsProxy props = Some True";
        simp add: DatabaseCluster_ctor_def Let_def select_simps js_not_iff proxy_simps)
  from assms req have "length pw = 12" "list_all (\<lambda>c. \<not> is_punctuation c) pw"
    "list_all (\<lambda>c. c \<noteq> CHR '' '') pw"
    by (simp_all add: generated_password_def)
  then have "length pw \<le> 12" "\<forall>c \<in> set pw. \<not> is_punctuation c \<and> c \<noteq> CHR '' ''"
    by (simp_all add: list_all_iff)
  with req only show ?thesis by simp
qed

theorem master_password_shape_witness:
  "generated_password
     (masterPassword (DatabaseCluster_ctor readme_stack ''DatabaseCluster'' readme_DatabaseProps))
     ''Ab3dEf6hIj9k''
   \<and> length ''Ab3dEf6hIj9k'' \<le> 12
   \<and> list_all (\<lambda>c. \<not> is_punctuation c \<and> c \<noteq> CHR '' '') ''Ab3dEf6hIj9k''"
proof -
  have h: "generated_password
     (masterPassword (DatabaseCluster_ctor readme_stack ''DatabaseCluster'' readme_DatabaseProps))
     ''Ab3dEf6hIj9k''"
    by (simp add: generated_password_def is_punctuation_def DatabaseCluster_ctor_def Let_def)
  from master_password_shape [OF h] h show ?thesis
    unfolding list_all_iff by blast
qed

text \<open>
  C5. When the construct creates its own function (no handler is supplied), that
  function is the handler and the only function created; with a database configuration
  that has no reader endpoint, \<open>DB_READER\<close> is the writer endpoint; without a database
  configuration, \<open>DB_WRITER\<close> and \<open>DB_READER\<close> are empty and \<open>DB_USER\<close> is \<open>admin\<close>.
\<close>

theorem database_environment_fallbacks:
  assumes "ServerlessApiProps.handler props = None"
  shows "let r = ServerlessApi_ctor dirname scope i props;
             env = map_of (environment (ServerlessApi.handler r))
         in the_functions (ServerlessApi.constructs r) = [ServerlessApi.handler r]
            \<and> (\<forall>dc. databaseConfig props = Some dc \<and> readerEndpoint dc = None \<longrightarrow>
                  env ''DB_WRITER'' = Some (writerEndpoint dc)
                  \<and> env ''DB_READER'' = Some (writerEndpoint dc))
            \<and> (databaseConfig props = None \<longrightarrow>
                  env ''DB_WRITER'' = Some ''''
                  \<and> env ''DB_READER'' = Some ''''
                  \<and> env ''DB_USER'' = Some ''admin'')"
  using assms
  by (cases "ServerlessApiProps.vpc props"; cases "ServerlessApiProps.rdsProxy props";
      cases "databaseConfig props";
      simp add: ServerlessApi_ctor_def Let_def select_simps addToRolePolicy_def)

theorem database_environment_fallbacks_witness:
  "ServerlessApiProps.handler (ServerlessApiProps.truncate readme_ServerlessLaravelProps) = None
   \<and> databaseConfig (ServerlessApiProps.truncate readme_ServerlessLaravelProps)
       = Some readme_DatabaseConfig
   \<and> readerEndpoint readme_DatabaseConfig = None
   \<and> map_of (environment (ServerlessApi.handler
        (ServerlessApi_ctor ''/lib'' readme_stack ''ServerlessApi''
           (ServerlessApiProps.truncate readme_ServerlessLaravelProps)))) ''DB_READER''
       = Some (writerEndpoint readme_DatabaseConfig)
   \<and> databaseConfig
        ((ServerlessApiProps.truncate readme_ServerlessLaravelProps)\<lparr>databaseConfig := None\<rparr>)
       = None
   \<and> map_of (environment (ServerlessApi.handler
        (ServerlessApi_ctor ''/lib'' readme_stack ''ServerlessApi''
           ((ServerlessApiProps.truncate readme_ServerlessLaravelProps)
              \<lparr>databaseConfig := None\<rparr>)))) ''DB_USER''
       = Some ''admin''"
proof -
  let ?p = "ServerlessApiProps.truncate readme_ServerlessLaravelProps"
  have h: "ServerlessApiProps.handler ?p = None"
    by (simp add: readme_ServerlessLaravelProps_def ServerlessApiProps.truncate_def)
  have c: "databaseConfig ?p = Some readme_DatabaseConfig"
    by (simp add: readme_ServerlessLaravelProps_def ServerlessApiProps.truncate_def)
  have e: "readerEndpoint readme_DatabaseConfig = None"
    by (simp add: readme_DatabaseConfig_def)
  have A: "map_of (environment (ServerlessApi.handler
        (ServerlessApi_ctor ''/lib'' readme_stack ''ServerlessApi'' ?p))) ''DB_READER''
       = Some (writerEndpoint readme_DatabaseConfig)"
    using c e database_environment_fallbacks
                [OF h, of "''/lib''" readme_stack "''ServerlessApi''"]
    unfolding Let_def by blast
  have h': "ServerlessApiProps.handler (?p\<lparr>databaseConfig := None\<rparr>) = None"
    using h by simp
  have c': "databaseConfig (?p\<lparr>databaseConfig := None\<rparr>) = None"
    by simp
  have B: "map_of (environment (ServerlessApi.handler
        (ServerlessApi_ctor ''/lib'' readme_stack ''ServerlessApi''
           (?p\<lparr>databaseConfig := None\<rparr>)))) ''DB_USER''
       = Some ''admin''"
    using c' database_environment_fallbacks
                [OF h', of "''/lib''" readme_stack "''ServerlessApi''"]
    unfolding Let_def by blast
  from h c e A c' B show ?thesis by blast
qed

text \<open>
  C6. Whenever a proxy is created, exactly one role is created: it is assumed by the
  service principal \<open>rds.amazonaws.com\<close> and by nothing else, and the proxy uses it. Over
  all the statements that the role ends with (the one the constructor adds and the
  grant that comes with the proxy), the actions are exactly the four that read a secret,
  and the resources are exactly one, the ARN of the generated secret of the master user,
  which is the only secret; no resource is the wildcard.
\<close>

theorem proxy_role_reads_only_the_master_secret:
  "let r = DatabaseCluster_ctor scope i props;
       rs = the_roles (DatabaseCluster.constructs r);
       stmts = concat (map iam_Role.policy rs)
   in the_proxies (DatabaseCluster.constructs r) \<noteq> [] \<longrightarrow>
        map assumedBy rs = [ServicePrincipal ''rds.amazonaws.com'']
        \<and> set (concat (map actions stmts)) =
            {''secretsmanager:GetResourcePolicy'',
             ''secretsmanager:GetSecretValue'',
             ''secretsmanager:DescribeSecret'',
             ''secretsmanager:ListSecretVersionIds''}
        \<and> set (concat (map resources stmts)) =
            {secretArn (secretsmanager_Secret.path (masterPassword r))}
        \<and> list_all (\<lambda>s. resources s = [secretArn (secretsmanager_Secret.path (masterPassword r))])
              stmts
        \<and> the_secrets (DatabaseCluster.constructs r) = [masterPassword r]
        \<and> Lit ''*'' \<notin> set (concat (map resources stmts))
        \<and> (\<forall>p \<in> set (the_proxies (DatabaseCluster.constructs r)).
              map Some (map iam_Role.path rs) = [role (options p)])"
  by (cases "singleInstanceOnly props = Some True";
      cases "DatabaseProps.rdsProxy props = Some True";
      auto simp add: DatabaseCluster_ctor_def Let_def select_simps js_not_iff proxy_simps)

theorem proxy_role_reads_only_the_master_secret_witness:
  "the_proxies (DatabaseCluster.constructs
      (DatabaseCluster_ctor readme_stack ''DatabaseCluster'' readme_DatabaseProps)) \<noteq> []
   \<and> map assumedBy (the_roles (DatabaseCluster.constructs
        (DatabaseCluster_ctor readme_stack ''DatabaseCluster'' readme_DatabaseProps)))
       = [ServicePrincipal ''rds.amazonaws.com'']
   \<and> set (concat (map actions (concat (map iam_Role.policy (the_roles
        (DatabaseCluster.constructs
           (DatabaseCluster_ctor readme_stack ''DatabaseCluster'' readme_DatabaseProps)))))))
       = {''secretsmanager:GetResourcePolicy'',
          ''secretsmanager:GetSecretValue'',
          ''secretsmanager:DescribeSecret'',
          ''secretsmanager:ListSecretVersionIds''}
   \<and> set (concat (map resources (concat (map iam_Role.policy (the_roles
        (DatabaseCluster.constructs
           (DatabaseCluster_ctor readme_stack ''DatabaseCluster'' readme_DatabaseProps)))))))
       = {secretArn (secretsmanager_Secret.path (masterPassword
            (DatabaseCluster_ctor readme_stack ''DatabaseCluster'' readme_DatabaseProps)))}
   \<and> map (\<lambda>x. length (iam_Role.policy x)) (the_roles (DatabaseCluster.constructs
        (DatabaseCluster_ctor readme_stack ''DatabaseCluster'' readme_DatabaseProps)))
       = [2]"
proof -
  have h: "the_proxies (DatabaseCluster.constructs
      (DatabaseCluster_ctor readme_stack ''DatabaseCluster'' readme_DatabaseProps)) \<noteq> []"
    by (simp add: readme_DatabaseProps_def DatabaseCluster_ctor_def Let_def
          select_simps js_not_iff proxy_simps)
  have n: "map (\<lambda>x. length (iam_Role.policy x)) (the_roles (DatabaseCluster.constructs
        (DatabaseCluster_ctor readme_stack ''DatabaseCluster'' readme_DatabaseProps)))
       = [2]"
    by (simp add: readme_DatabaseProps_def DatabaseCluster_ctor_def Let_def
          select_simps js_not_iff proxy_simps)
  note c = proxy_role_reads_only_the_master_secret
             [of readme_stack "''DatabaseCluster''" readme_DatabaseProps,
              unfolded Let_def, THEN mp, OF h]
  note c1 = c [THEN conjunct1]
  note c2 = c [THEN conjunct2, THEN conjunct1]
  note c3 = c [THEN conjunct2, THEN conjunct2, THEN conjunct1]
  show ?thesis
    by (rule conjI [OF h conjI [OF c1 conjI [OF c2 conjI [OF c3 n]]]])
qed

text \<open>
  C7. Constructing \<open>ServerlessLaravel\<close> yields the description that \<open>ServerlessApi\<close>
  yields for the same properties with \<open>lambdaCodePath\<close> set to \<open>laravelPath\<close>: every other
  option is passed on unchanged and nothing is added.
\<close>

theorem ServerlessLaravel_is_a_renaming:
  "ServerlessLaravel_ctor dirname scope i props
     = ServerlessLaravel_as_renaming dirname scope i props"
  by (simp add: ServerlessLaravel_ctor_def ServerlessLaravel_as_renaming_def
        ServerlessApiProps.truncate_def)

text \<open>
  C8. The claim: with \<open>instanceType\<close> omitted the database is of the default tier
  \<open>t3.medium\<close>, in the single-instance branch as in the cluster branch. The cluster
  branch applies the default; the single-instance branch hands \<open>props.instanceType\<close>
  over as it is, so the instance is declared without any instance type.
\<close>

theorem single_instance_gets_no_default_instanceType:
  "map rds_DatabaseInstance.instanceType (the_instances (DatabaseCluster.constructs
      (DatabaseCluster_ctor scope i
         (props\<lparr>singleInstanceOnly := Some True, DatabaseProps.instanceType := None\<rparr>))))
     = [None]
   \<and> map (\<lambda>c. rds_InstanceProps.instanceType (instanceProps c))
       (the_clusters (DatabaseCluster.constructs
          (DatabaseCluster_ctor scope i
             (props\<lparr>singleInstanceOnly := None, DatabaseProps.instanceType := None\<rparr>))))
     = [InstanceType ''t3.medium'']"
  by (cases "DatabaseProps.rdsProxy props = Some True";
      simp add: DatabaseCluster_ctor_def Let_def select_simps js_not_iff proxy_simps)

text \<open>
  C9. When a handler is supplied, the construct creates neither a function nor a layer,
  the description does not depend on \<open>lambdaCodePath\<close>, \<open>brefLayerVersion\<close> and
  \<open>databaseConfig\<close>, the environment of the supplied handler is left as it is, and the
  handler still receives the \<open>rds-db:connect\<close> statement for the proxy, when one is
  given, and nothing otherwise.
\<close>

theorem supplied_handler_frame:
  assumes "ServerlessApiProps.handler props = Some h"
  shows "let r = ServerlessApi_ctor dirname scope i props
         in the_functions (ServerlessApi.constructs r) = []
            \<and> the_layers (ServerlessApi.constructs r) = []
            \<and> ServerlessApi_ctor dirname scope i
                 (props\<lparr>lambdaCodePath := a, brefLayerVersion := b, databaseConfig := c\<rparr>) = r
            \<and> environment (ServerlessApi.handler r) = environment h
            \<and> (\<forall>p. ServerlessApiProps.rdsProxy props = Some p \<longrightarrow>
                  ServerlessApi.handler r =
                    h\<lparr>rolePolicy := rolePolicy h
                         @ [\<lparr> actions = [''rds-db:connect''],
                              resources = [Lit (dbProxyArn p)] \<rparr>]\<rparr>)
            \<and> (ServerlessApiProps.rdsProxy props = None \<longrightarrow> ServerlessApi.handler r = h)"
  using assms
  by (cases "ServerlessApiProps.vpc props"; cases "ServerlessApiProps.rdsProxy props";
      simp add: ServerlessApi_ctor_def Let_def select_simps addToRolePolicy_def)

theorem supplied_handler_frame_witness:
  "ServerlessApiProps.handler
     ((ServerlessApiProps.truncate readme_ServerlessLaravelProps)
        \<lparr>ServerlessApiProps.handler := Some custom_handler,
         ServerlessApiProps.rdsProxy := Some custom_proxy\<rparr>) = Some custom_handler
   \<and> the_functions (ServerlessApi.constructs
        (ServerlessApi_ctor ''/lib'' readme_stack ''ServerlessApi''
           ((ServerlessApiProps.truncate readme_ServerlessLaravelProps)
              \<lparr>ServerlessApiProps.handler := Some custom_handler,
               ServerlessApiProps.rdsProxy := Some custom_proxy\<rparr>))) = []
   \<and> ServerlessApi.handler
        (ServerlessApi_ctor ''/lib'' readme_stack ''ServerlessApi''
           ((ServerlessApiProps.truncate readme_ServerlessLaravelProps)
              \<lparr>ServerlessApiProps.handler := Some custom_handler,
               ServerlessApiProps.rdsProxy := Some custom_proxy\<rparr>))
       = custom_handler\<lparr>rolePolicy := rolePolicy custom_handler
           @ [\<lparr> actions = [''rds-db:connect''],
                resources = [Lit (dbProxyArn custom_proxy)] \<rparr>]\<rparr>"
proof -
  let ?p = "(ServerlessApiProps.truncate readme_ServerlessLaravelProps)
              \<lparr>ServerlessApiProps.handler := Some custom_handler,
               ServerlessApiProps.rdsProxy := Some custom_proxy\<rparr>"
  have h: "ServerlessApiProps.handler ?p = Some custom_handler"
    by simp
  have q: "ServerlessApiProps.rdsProxy ?p = Some custom_proxy"
    by simp
  from q supplied_handler_frame [OF h, of "''/lib''" readme_stack "''ServerlessApi''"]
  have "the_functions (ServerlessApi.constructs
          (ServerlessApi_ctor ''/lib'' readme_stack ''ServerlessApi'' ?p)) = []
        \<and> ServerlessApi.handler
            (ServerlessApi_ctor ''/lib'' readme_stack ''ServerlessApi'' ?p)
          = custom_handler\<lparr>rolePolicy := rolePolicy custom_handler
              @ [\<lparr> actions = [''rds-db:connect''],
                   resources = [Lit (dbProxyArn custom_proxy)] \<rparr>]\<rparr>"
    unfolding Let_def by blast
  with h show ?thesis by blast
qed

text \<open>
  C10. Two configurations of \<open>ServerlessApi\<close> that differ in nothing but
  \<open>databaseConfig.masterUserPasswordSecret\<close> yield the same description: the field is
  never read.
\<close>

theorem masterUserPasswordSecret_is_not_read:
  "ServerlessApi_ctor dirname scope i
     (props\<lparr>databaseConfig := Some (dc\<lparr>masterUserPasswordSecret := s1\<rparr>)\<rparr>)
   = ServerlessApi_ctor dirname scope i
     (props\<lparr>databaseConfig := Some (dc\<lparr>masterUserPasswordSecret := s2\<rparr>)\<rparr>)"
  by (simp add: ServerlessApi_ctor_def Let_def)

end
